theory Spec2Isabelle
  imports Main
begin

section \<open>JavaScript values and objects\<close>

text \<open>
  The wrapper of \<^verbatim>\<open>src/react/addUrlProps.js\<close> moves JavaScript objects around: the
  parsed query, the router params, the props of the component and the object of
  generated change handlers. An object is modelled as the list of its own enumerable
  properties in the order \<^verbatim>\<open>Object.keys\<close> lists them; the keys of a well-formed object
  are distinct. A raised exception is a value of type \<open>error\<close>.

  A generated change handler is a function object. Its constructor carries what the
  closure of the source captures (\<^verbatim>\<open>updateType\<close>, \<^verbatim>\<open>queryParam\<close>, \<^verbatim>\<open>type\<close>), the
  component instance it was bound to with \<^verbatim>\<open>.bind(this)\<close>, and a reference: two
  handlers are the same function object exactly when they are equal as values,
  reference included. Numbers are kept to the integers; the wrapper never computes
  with them. A string is the list of its code units, a \<open>char\<close> being one code unit;
  what the runtime's \<^verbatim>\<open>toUpperCase\<close> makes of a code unit is not fixed by the model but
  taken as a parameter.
\<close>

datatype error = TypeError | Raised string

datatype jsval =
    JUndefined
  | JNull
  | JBoolean bool
  | JNumber int
  | JString string
  | JArray "jsval list"
  | JObject "(string \<times> jsval) list"
  | GeneratedUrlChangeHandler nat nat jsval string jsval
    \<comment> \<open>reference, bound \<^verbatim>\<open>this\<close>, \<^verbatim>\<open>updateType\<close>, \<^verbatim>\<open>queryParam\<close>, \<^verbatim>\<open>type\<close>\<close>

type_synonym jsobject = "(string \<times> jsval) list"

text \<open>The assignment \<^verbatim>\<open>target[key] = value\<close>: an existing property keeps its place,
  a new one is added last.\<close>

fun obj_set :: "jsobject \<Rightarrow> string \<Rightarrow> jsval \<Rightarrow> jsobject" where
  "obj_set [] k v = [(k, v)]"
| "obj_set ((k', v') # kvs) k v =
     (if k' = k then (k, v) # kvs else (k', v') # obj_set kvs k v)"

text \<open>\<^verbatim>\<open>Object.assign(target, source)\<close>: every property of the source is assigned to
  the target, in the source's order. The source mutates the target in place; the
  model returns the new target.\<close>

definition Object_assign :: "jsobject \<Rightarrow> jsobject \<Rightarrow> jsobject" where
  "Object_assign target source = fold (\<lambda>(k, v) t. obj_set t k v) source target"

section \<open>Locations, props and configuration\<close>

text \<open>
  A location (the \<^verbatim>\<open>location\<close> prop of react-router, \<^verbatim>\<open>history.location\<close>,
  \<^verbatim>\<open>window.location\<close>) is an object of which the wrapper reads \<^verbatim>\<open>query\<close> and
  \<^verbatim>\<open>search\<close>. \<open>query = None\<close> stands for a \<^verbatim>\<open>query\<close> property that is absent or falsy
  (\<^verbatim>\<open>undefined\<close>, \<^verbatim>\<open>null\<close>); a present one is an object. \<open>search = None\<close> stands for an
  absent search string.

  The props of the wrapper: \<^verbatim>\<open>props.location\<close> is an object or absent (the source
  declares \<^verbatim>\<open>location: PropTypes.object\<close>), \<^verbatim>\<open>props.params\<close> is the object of router
  params or absent, \<open>ownProps\<close> holds every other prop.
\<close>

record location =
  query :: "jsobject option"
  search :: "string option"

record props =
  location :: "location option"
  params :: "jsobject option"
  ownProps :: jsobject

text \<open>One entry of \<^verbatim>\<open>urlPropsQueryConfig\<close>: \<^verbatim>\<open>{ updateType, queryParam, type }\<close>.
  \<open>queryParam = None\<close> is \<^verbatim>\<open>undefined\<close>, where the destructuring default applies.\<close>

record fieldConfig =
  updateType :: jsval
  queryParam :: "string option"
  type :: jsval

type_synonym queryConfig = "(string \<times> fieldConfig) list"

type_synonym namer = "string \<Rightarrow> error + string"

text \<open>The \<^verbatim>\<open>options\<close> of \<^verbatim>\<open>addUrlProps(options)\<close>. The two flags are \<open>Some True\<close>,
  \<open>Some False\<close> or \<open>None\<close> (\<^verbatim>\<open>undefined\<close>); a function or a configuration that is not
  given is \<open>None\<close>. The functions of the options may raise; they are taken to return
  their result without writing into their arguments.\<close>

record options =
  mapUrlToProps :: "(jsobject \<Rightarrow> props \<Rightarrow> error + jsobject) option"
  mapUrlChangeHandlersToProps ::
    "(jsobject \<Rightarrow> jsobject option \<Rightarrow> error + jsobject option) option"
  urlPropsQueryConfig :: "queryConfig option"
  addRouterParams :: "bool option"
  addUrlChangeHandlers :: "bool option"
  options_changeHandlerName :: "namer option"

text \<open>The global \<^verbatim>\<open>urlQueryConfig\<close> (module \<^verbatim>\<open>../urlQueryConfig\<close>), as far as the
  wrapper reads it. It can change between renders, so every operation takes its
  current value.\<close>

record urlQueryConfig =
  urlQueryConfig_history_location :: "location option"
  urlQueryConfig_addRouterParams :: bool
  urlQueryConfig_addUrlChangeHandlers :: bool
  urlQueryConfig_changeHandlerName :: "namer option"

text \<open>
  The mutable variables of the closures of one call \<^verbatim>\<open>addUrlProps(options)\<close>.
  \<^verbatim>\<open>changeHandlerName\<close> is a \<^verbatim>\<open>let\<close> of \<^verbatim>\<open>addUrlProps\<close> (lines 32--34), initialised from
  the options: every class wrapped by the function this call returns, and every
  instance of such a class, reads and writes the same variable. \<^verbatim>\<open>cachedHandlers\<close> is a
  \<^verbatim>\<open>let\<close> of \<^verbatim>\<open>addPropsWrapper\<close> (line 38), initially \<^verbatim>\<open>undefined\<close>: there is one per
  wrapped class, shared by the instances of that class; the model indexes them by the
  class. \<open>next_ref\<close> is the next unused function reference.
\<close>

record closure =
  changeHandlerName :: "namer option"
  cachedHandlers :: "nat \<Rightarrow> jsobject option"
  next_ref :: nat

section \<open>The wrapper\<close>

subsection \<open>\<^verbatim>\<open>defaultChangeHandlerName\<close> (lines 13--15)\<close>

text \<open>\<^verbatim>\<open>`onChange${propName[0].toUpperCase()}${propName.substring(1)}`\<close>. The
  parameter \<open>toUpperCase\<close> is \<^verbatim>\<open>String.prototype.toUpperCase\<close> on the string of one code
  unit; its result is a string, since upper-casing can lengthen. On the empty string
  \<^verbatim>\<open>propName[0]\<close> is \<^verbatim>\<open>undefined\<close> and the method call raises a TypeError.\<close>

fun defaultChangeHandlerName :: "(char \<Rightarrow> string) \<Rightarrow> namer" where
  "defaultChangeHandlerName toUpperCase [] = Inl TypeError"
| "defaultChangeHandlerName toUpperCase (c # cs) = Inr (''onChange'' @ toUpperCase c @ cs)"

subsection \<open>\<^verbatim>\<open>addUrlProps\<close> (lines 23--34) and \<^verbatim>\<open>addPropsWrapper\<close> (lines 36--45)\<close>

text \<open>The closure right after the call \<^verbatim>\<open>addUrlProps(options)\<close>: the naming function is
  the one of the options, and no class has cached handlers yet.\<close>

definition addUrlProps_closure :: "options \<Rightarrow> nat \<Rightarrow> closure" where
  "addUrlProps_closure opts n =
     \<lparr>changeHandlerName = options_changeHandlerName opts, cachedHandlers = (\<lambda>cls. None),
      next_ref = n\<rparr>"

text \<open>The decoder is built only when a configuration is given. \<^verbatim>\<open>urlQueryDecoder\<close>
  (module \<^verbatim>\<open>../urlQueryDecoder\<close>) is a parameter.\<close>

definition addPropsWrapper_decodeQuery ::
  "(queryConfig \<Rightarrow> jsobject \<Rightarrow> error + jsobject) \<Rightarrow> options
    \<Rightarrow> (jsobject \<Rightarrow> error + jsobject) option" where
  "addPropsWrapper_decodeQuery urlQueryDecoder opts =
     (case urlPropsQueryConfig opts of
        None \<Rightarrow> None
      | Some config \<Rightarrow> Some (urlQueryDecoder config))"

subsection \<open>\<^verbatim>\<open>getUrlObject\<close> (lines 51--83)\<close>

text \<open>Lines 52--65: the location the query is read from.\<close>

definition getUrlObject_location :: "urlQueryConfig \<Rightarrow> location \<Rightarrow> props \<Rightarrow> location" where
  "getUrlObject_location cfg window_location p =
     (if location p \<noteq> None \<and> query (the (location p)) \<noteq> None then the (location p)
      else if urlQueryConfig_history_location cfg \<noteq> None
        then the (urlQueryConfig_history_location cfg)
      else window_location)"

text \<open>Line 67: \<^verbatim>\<open>location.query || parseQueryString(location.search) || {}\<close>. The parser
  (package \<^verbatim>\<open>query-string\<close>) is a parameter; it may raise, and a falsy result is
  \<open>None\<close>.\<close>

definition getUrlObject_currentQuery ::
  "(string option \<Rightarrow> error + jsobject option) \<Rightarrow> location \<Rightarrow> error + jsobject" where
  "getUrlObject_currentQuery parseQueryString loc =
     (case query loc of
        Some q \<Rightarrow> Inr q
      | None \<Rightarrow>
         (case parseQueryString (search loc) of
            Inl e \<Rightarrow> Inl e
          | Inr (Some q) \<Rightarrow> Inr q
          | Inr None \<Rightarrow> Inr []))"

text \<open>Line 78: \<^verbatim>\<open>addRouterParams || (addRouterParams !== false &&
  urlQueryConfig.addRouterParams)\<close>.\<close>

definition addRouterParams_enabled :: "options \<Rightarrow> urlQueryConfig \<Rightarrow> bool" where
  "addRouterParams_enabled opts cfg \<longleftrightarrow>
     addRouterParams opts = Some True \<or>
     (addRouterParams opts \<noteq> Some False \<and> urlQueryConfig_addRouterParams cfg)"

text \<open>Lines 67--82. Without a decoder the result is the query object itself, and
  line 79 assigns the router params to that very object; the model gives the url object
  the call returns.\<close>

definition getUrlObject ::
  "(string option \<Rightarrow> error + jsobject option) \<Rightarrow> location \<Rightarrow> urlQueryConfig \<Rightarrow> options
    \<Rightarrow> (jsobject \<Rightarrow> error + jsobject) option \<Rightarrow> props \<Rightarrow> error + jsobject" where
  "getUrlObject parseQueryString window_location cfg opts decodeQuery p =
     (case getUrlObject_currentQuery parseQueryString
             (getUrlObject_location cfg window_location p) of
        Inl e \<Rightarrow> Inl e
      | Inr currentQuery \<Rightarrow>
         (case (case decodeQuery of
                  Some decode \<Rightarrow> decode currentQuery
                | None \<Rightarrow> Inr currentQuery) of
            Inl e \<Rightarrow> Inl e
          | Inr result \<Rightarrow>
             (if addRouterParams_enabled opts cfg
              then Inr (Object_assign result (case params p of None \<Rightarrow> [] | Some ps \<Rightarrow> ps))
              else Inr result)))"


subsection \<open>\<^verbatim>\<open>getUrlChangeHandlerProps\<close> (lines 98--145)\<close>

text \<open>Lines 117 and 124--127: the function object made for one configured field. It
  captures \<^verbatim>\<open>updateType\<close>, \<^verbatim>\<open>queryParam\<close> (the prop name when the field gives none) and
  \<^verbatim>\<open>type\<close>, and is bound to the rendering instance; \<open>r\<close> is its reference.\<close>

definition generated_handler :: "nat \<Rightarrow> nat \<Rightarrow> string \<Rightarrow> fieldConfig \<Rightarrow> jsval" where
  "generated_handler r this propName fc =
     GeneratedUrlChangeHandler r this (updateType fc)
       (case queryParam fc of None \<Rightarrow> propName | Some q \<Rightarrow> q) (type fc)"

text \<open>Lines 116--130: the \<^verbatim>\<open>reduce\<close> over \<^verbatim>\<open>Object.keys(urlPropsQueryConfig)\<close>. Each
  step names the handler, creates a new bound function and assigns it to the
  accumulator under that name. A naming function that raises ends the loop.\<close>

fun reduce_handlers ::
  "namer \<Rightarrow> nat \<Rightarrow> queryConfig \<Rightarrow> jsobject \<Rightarrow> nat \<Rightarrow> (error + jsobject) \<times> nat" where
  "reduce_handlers name this [] handlersAccum n = (Inr handlersAccum, n)"
| "reduce_handlers name this ((propName, fc) # rest) handlersAccum n =
     (case name propName of
        Inl e \<Rightarrow> (Inl e, n)
      | Inr handlerName \<Rightarrow>
          reduce_handlers name this rest
            (obj_set handlersAccum handlerName (generated_handler n this propName fc))
            (Suc n))"

text \<open>Line 104: \<^verbatim>\<open>addUrlChangeHandlers || (addUrlChangeHandlers == null &&
  urlQueryConfig.addUrlChangeHandlers)\<close>.\<close>

definition addUrlChangeHandlers_enabled :: "options \<Rightarrow> urlQueryConfig \<Rightarrow> bool" where
  "addUrlChangeHandlers_enabled opts cfg \<longleftrightarrow>
     addUrlChangeHandlers opts = Some True \<or>
     (addUrlChangeHandlers opts = None \<and> urlQueryConfig_addUrlChangeHandlers cfg)"

text \<open>Lines 99--136: the generated handlers of the class \<open>cls\<close>, from its cache when
  that is filled.\<close>

definition getUrlChangeHandlerProps_handlers ::
  "(char \<Rightarrow> string) \<Rightarrow> options \<Rightarrow> urlQueryConfig \<Rightarrow> nat \<Rightarrow> nat \<Rightarrow> closure
    \<Rightarrow> (error + jsobject option) \<times> closure" where
  "getUrlChangeHandlerProps_handlers toUpperCase opts cfg cls this s =
     (case urlPropsQueryConfig opts of
        None \<Rightarrow> (Inr None, s)
      | Some config \<Rightarrow>
         (if addUrlChangeHandlers_enabled opts cfg
          then
            (case cachedHandlers s cls of
               Some handlers \<Rightarrow> (Inr (Some handlers), s)
             | None \<Rightarrow>
                (let s1 =
                   (if changeHandlerName s = None
                    then s\<lparr>changeHandlerName :=
                           Some (case urlQueryConfig_changeHandlerName cfg of
                                   Some f \<Rightarrow> f
                                 | None \<Rightarrow> defaultChangeHandlerName toUpperCase)\<rparr>
                    else s)
                 in (case reduce_handlers (the (changeHandlerName s1)) this config []
                            (next_ref s1) of
                       (Inl e, n) \<Rightarrow> (Inl e, s1\<lparr>next_ref := n\<rparr>)
                     | (Inr handlers, n) \<Rightarrow>
                         (Inr (Some handlers),
                          s1\<lparr>cachedHandlers := (cachedHandlers s1)(cls := Some handlers),
                             next_ref := n\<rparr>))))
          else (Inr None, s)))"

text \<open>Lines 138--144: the manual mapping function, when one is given, is called with
  the props and the generated handlers (\<open>None\<close> is \<^verbatim>\<open>undefined\<close>) and its result is
  returned instead.\<close>

definition getUrlChangeHandlerProps ::
  "(char \<Rightarrow> string) \<Rightarrow> options \<Rightarrow> urlQueryConfig \<Rightarrow> nat \<Rightarrow> nat \<Rightarrow> jsobject \<Rightarrow> closure
    \<Rightarrow> (error + jsobject option) \<times> closure" where
  "getUrlChangeHandlerProps toUpperCase opts cfg cls this propsWithUrl s =
     (case getUrlChangeHandlerProps_handlers toUpperCase opts cfg cls this s of
        (Inl e, s') \<Rightarrow> (Inl e, s')
      | (Inr handlers, s') \<Rightarrow>
          (case mapUrlChangeHandlersToProps opts of
             None \<Rightarrow> (Inr handlers, s')
           | Some f \<Rightarrow> (f propsWithUrl handlers, s')))"

subsection \<open>\<^verbatim>\<open>generatedUrlChangeHandler\<close> (lines 124--127)\<close>

text \<open>
  Calling a generated handler with a value: the value is encoded by the captured
  type and the single-field update is called with the captured update type and query
  parameter and with \<^verbatim>\<open>this.props.location\<close>, read from the bound instance at the time
  of the call. \<^verbatim>\<open>encode\<close> (module \<^verbatim>\<open>../serialize\<close>) and \<^verbatim>\<open>updateUrlQuerySingle\<close> (module
  \<^verbatim>\<open>../updateUrlQuery\<close>) are parameters; the update acts on a state \<open>'w\<close> of the URL.
  \<open>props_of\<close> gives the current props of every instance. The generated handlers are
  the only function values of the model; calling any other value raises a TypeError.
\<close>

fun generatedUrlChangeHandler ::
  "(jsval \<Rightarrow> jsval \<Rightarrow> error + jsval)
    \<Rightarrow> (jsval \<Rightarrow> string \<Rightarrow> jsval \<Rightarrow> location option \<Rightarrow> 'w \<Rightarrow> error + 'w)
    \<Rightarrow> (nat \<Rightarrow> props) \<Rightarrow> jsval \<Rightarrow> jsval \<Rightarrow> 'w \<Rightarrow> error + 'w" where
  "generatedUrlChangeHandler encode updateUrlQuerySingle props_of
       (GeneratedUrlChangeHandler r this updateType' queryParam' type') val w =
     (case encode type' val of
        Inl e \<Rightarrow> Inl e
      | Inr encodedValue \<Rightarrow>
          updateUrlQuerySingle updateType' queryParam' encodedValue
            (location (props_of this)) w)"
| "generatedUrlChangeHandler encode updateUrlQuerySingle props_of h val w = Inl TypeError"

subsection \<open>\<^verbatim>\<open>render\<close> (lines 148--165)\<close>




section \<open>Runs of renders, the URL update and example inputs\<close>

text \<open>The naming function a generation uses (lines 111--113): the closure's variable
  when it is set, else the global one, else the default.\<close>

definition name_in_effect :: "(char \<Rightarrow> string) \<Rightarrow> urlQueryConfig \<Rightarrow> closure \<Rightarrow> namer" where
  "name_in_effect toUpperCase cfg s =
     (case changeHandlerName s of
        Some f \<Rightarrow> f
      | None \<Rightarrow> (case urlQueryConfig_changeHandlerName cfg of
                   Some f \<Rightarrow> f
                 | None \<Rightarrow> defaultChangeHandlerName toUpperCase))"

text \<open>The handlers object of a generation whose handler names are pairwise distinct:
  one property per configured field, in the order of the configuration, with
  consecutive references.\<close>

fun handlers_of :: "nat \<Rightarrow> nat \<Rightarrow> queryConfig \<Rightarrow> string list \<Rightarrow> jsobject" where
  "handlers_of n this ((propName, fc) # config) (handlerName # names) =
     (handlerName, generated_handler n this propName fc) # handlers_of (Suc n) this config names"
| "handlers_of n this config names = []"

text \<open>The closure after a sequence of renders of the classes wrapped by one call of
  \<^verbatim>\<open>addUrlProps\<close>. Each render has its own current global configuration, class,
  rendering instance and props.\<close>

fun renders ::
  "(char \<Rightarrow> string) \<Rightarrow> options \<Rightarrow> (urlQueryConfig \<times> nat \<times> nat \<times> jsobject) list \<Rightarrow> closure
    \<Rightarrow> closure" where
  "renders toUpperCase opts [] s = s"
| "renders toUpperCase opts ((cfg, cls, this, propsWithUrl) # calls) s =
     renders toUpperCase opts calls
       (snd (getUrlChangeHandlerProps toUpperCase opts cfg cls this propsWithUrl s))"

text \<open>
  Modelled from the spec: \<^verbatim>\<open>updateUrlQuerySingle\<close> of module \<^verbatim>\<open>../updateUrlQuery\<close> is
  not among the sources. The specification describes it as the external update
  function, ``parameterized by an update strategy (replace-in-place vs. push new entry)
  and a query key/value pair'', which ``updates the URL query field matching its
  configured update strategy and leaves other fields untouched''. The state of the URL
  is the query of the current entry and the queries of the earlier history entries.
  Which update types push is not said: \<open>pushes\<close> is a parameter. The location argument
  is not read.
\<close>

record url_state =
  url_query :: jsobject
  url_entries :: "jsobject list"

definition updateUrlQuerySingle ::
  "(jsval \<Rightarrow> bool) \<Rightarrow> jsval \<Rightarrow> string \<Rightarrow> jsval \<Rightarrow> location option \<Rightarrow> url_state
    \<Rightarrow> error + url_state" where
  "updateUrlQuerySingle pushes updateType' queryParam' encodedValue loc w =
     Inr (if pushes updateType'
          then \<lparr>url_query = obj_set (url_query w) queryParam' encodedValue,
                url_entries = url_query w # url_entries w\<rparr>
          else w\<lparr>url_query := obj_set (url_query w) queryParam' encodedValue\<rparr>)"

text \<open>Example inputs. The parser, the decoder, the encoder, the upper-casing and the
  element constructor are stand-ins for the external modules and the runtime: the
  parser returns the search string under one key, the decoder returns a copy of the
  query, the encoder returns the value as it is, the upper-casing is that of the ASCII
  letters (the examples apply it to ASCII letters only), the element is its props
  object. The mapping function is \<^verbatim>\<open>(props, handlers) => props.readOnly === true ?
  { disabled: true } : handlers\<close>.\<close>

definition example_toUpperCase :: "char \<Rightarrow> string" where
  "example_toUpperCase c =
     (let n = (of_char c :: nat) in if 97 \<le> n \<and> n \<le> 122 then [char_of (n - 32)] else [c])"


definition example_mapper :: "jsobject \<Rightarrow> jsobject option \<Rightarrow> error + jsobject option" where
  "example_mapper propsWithUrl handlers =
     (if map_of propsWithUrl ''readOnly'' = Some (JBoolean True)
      then Inr (Some [(''disabled'', JBoolean True)])
      else Inr handlers)"

definition example_parse :: "string option \<Rightarrow> error + jsobject option" where
  "example_parse s = (case s of None \<Rightarrow> Inr None | Some x \<Rightarrow> Inr (Some [(''search'', JString x)]))"

definition example_decoder :: "queryConfig \<Rightarrow> jsobject \<Rightarrow> error + jsobject" where
  "example_decoder config q = Inr q"

definition example_encode :: "jsval \<Rightarrow> jsval \<Rightarrow> error + jsval" where
  "example_encode t v = Inr v"

definition example_window :: location where
  "example_window = \<lparr>query = None, search = Some ''?w=1''\<rparr>"

definition example_config :: queryConfig where
  "example_config =
     [(''foo'', \<lparr>updateType = JUndefined, queryParam = None, type = JString ''number''\<rparr>),
      (''bar'', \<lparr>updateType = JString ''pushIn'', queryParam = Some ''b'',
                type = JString ''string''\<rparr>)]"

definition example_urlQueryConfig :: urlQueryConfig where
  "example_urlQueryConfig =
     \<lparr>urlQueryConfig_history_location = None, urlQueryConfig_addRouterParams = False,
      urlQueryConfig_addUrlChangeHandlers = True, urlQueryConfig_changeHandlerName = None\<rparr>"

definition example_options :: options where
  "example_options =
     \<lparr>mapUrlToProps = None, mapUrlChangeHandlersToProps = None,
      urlPropsQueryConfig = Some example_config, addRouterParams = None,
      addUrlChangeHandlers = None, options_changeHandlerName = None\<rparr>"

definition example_props :: props where
  "example_props =
     \<lparr>location = Some \<lparr>query = Some [(''id'', JString ''7''), (''page'', JString ''2'')],
                        search = Some ''?id=7&page=2''\<rparr>,
      params = Some [(''id'', JString ''42'')],
      ownProps = [(''title'', JString ''list'')]\<rparr>"

text \<open>The handlers the first render of \<open>example_options\<close> generates for instance 1 of
  class 0, and the closure it leaves.\<close>

definition example_handlers :: jsobject where
  "example_handlers =
     [(''onChangeFoo'', GeneratedUrlChangeHandler 0 1 JUndefined ''foo'' (JString ''number'')),
      (''onChangeBar'',
       GeneratedUrlChangeHandler 1 1 (JString ''pushIn'') ''b'' (JString ''string''))]"

definition example_closure :: closure where
  "example_closure =
     \<lparr>changeHandlerName = Some (defaultChangeHandlerName example_toUpperCase),
      cachedHandlers = (\<lambda>cls. None)(0 := Some example_handlers), next_ref = 2\<rparr>"

section \<open>Objects\<close>

lemma map_of_obj_set: "map_of (obj_set ob k v) = (map_of ob)(k \<mapsto> v)"
  by (induction ob k v rule: obj_set.induct) auto

lemma keys_obj_set: "fst ` set (obj_set ob k v) = insert k (fst ` set ob)"
  by (induction ob k v rule: obj_set.induct) auto

lemma obj_set_new: "k \<notin> fst ` set ob \<Longrightarrow> obj_set ob k v = ob @ [(k, v)]"
  by (induction ob k v rule: obj_set.induct) auto

lemma set_obj_set: "set (obj_set ob k v) \<subseteq> insert (k, v) (set ob)"
  by (induction ob k v rule: obj_set.induct) auto

lemma map_of_Object_assign:
  "map_of (Object_assign target source) = map_of target ++ map_of (rev source)"
  unfolding Object_assign_def
  by (induction source arbitrary: target)
     (auto simp: map_of_obj_set fun_eq_iff map_add_def split: option.splits)

lemma map_of_rev_distinct: "distinct (map fst xs) \<Longrightarrow> map_of (rev xs) = map_of xs"
  by (simp add: map_of_inject_set rev_map[symmetric])

lemma Object_assign_lookup:
  "distinct (map fst source) \<Longrightarrow>
   map_of (Object_assign target source) k =
     (case map_of source k of Some v \<Rightarrow> Some v | None \<Rightarrow> map_of target k)"
  by (simp add: map_of_Object_assign map_of_rev_distinct map_add_def)

section \<open>The url object\<close>

text \<open>
  C1 (as amended). When router-param merging is enabled and \<^verbatim>\<open>props.params\<close> is given,
  the url object is the URL-derived object (what \<^verbatim>\<open>getUrlObject\<close> returns with merging
  switched off) with every router param assigned over it: under a key of
  \<^verbatim>\<open>props.params\<close> the url object holds the router param's value, whatever the URL
  gave for that key, and under every other key it holds the URL-derived value.
\<close>

theorem getUrlObject_router_params_override:
  assumes en: "addRouterParams_enabled opts cfg"
    and ps: "params p = Some ps" "distinct (map fst ps)"
    and res: "getUrlObject parse win cfg opts dq p = Inr result"
  shows "\<exists>r. getUrlObject parse win cfg (opts\<lparr>addRouterParams := Some False\<rparr>) dq p = Inr r \<and>
    (\<forall>k. map_of result k = (case map_of ps k of Some v \<Rightarrow> Some v | None \<Rightarrow> map_of r k))"
  using assms
  by (auto simp: getUrlObject_def addRouterParams_enabled_def Object_assign_lookup
           split: sum.splits option.splits)

theorem getUrlObject_router_params_override_witness:
  "addRouterParams_enabled
     (example_options\<lparr>urlPropsQueryConfig := None, addRouterParams := Some True\<rparr>)
     example_urlQueryConfig \<and>
   getUrlObject example_parse example_window example_urlQueryConfig
     (example_options\<lparr>urlPropsQueryConfig := None, addRouterParams := Some True\<rparr>)
     None example_props =
     Inr [(''id'', JString ''42''), (''page'', JString ''2'')] \<and>
   (\<exists>r. getUrlObject example_parse example_window example_urlQueryConfig
          (example_options\<lparr>urlPropsQueryConfig := None, addRouterParams := Some True,
             addRouterParams := Some False\<rparr>)
          None example_props = Inr r \<and>
      (\<forall>k. map_of [(''id'', JString ''42''), (''page'', JString ''2'')] k =
         (case map_of [(''id'', JString ''42'')] k of
            Some v \<Rightarrow> Some v | None \<Rightarrow> map_of r k)))"
proof -
  let ?opts = "example_options\<lparr>urlPropsQueryConfig := None, addRouterParams := Some True\<rparr>"
  have en: "addRouterParams_enabled ?opts example_urlQueryConfig"
    by (simp add: addRouterParams_enabled_def)
  have ps: "params example_props = Some [(''id'', JString ''42'')]"
    "distinct (map fst [(''id'', JString ''42'')])"
    by (simp_all add: example_props_def)
  have res: "getUrlObject example_parse example_window example_urlQueryConfig ?opts None
     example_props = Inr [(''id'', JString ''42''), (''page'', JString ''2'')]"
    by (simp add: getUrlObject_def getUrlObject_currentQuery_def getUrlObject_location_def
          addRouterParams_enabled_def example_props_def Object_assign_def)
  from getUrlObject_router_params_override[OF en ps res] en res show ?thesis
    by blast
qed

text \<open>The claim as written fails. No configuration is given, so the wrapper has no
  decoder; the URL gives \<^verbatim>\<open>id=7\<close>, the router param \<^verbatim>\<open>id\<close> is \<^verbatim>\<open>42\<close>, and with merging
  enabled the url object holds \<^verbatim>\<open>42\<close>: the URL-derived value is overwritten.\<close>

theorem getUrlObject_router_params_counterexample:
  "addPropsWrapper_decodeQuery example_decoder
     (example_options\<lparr>urlPropsQueryConfig := None, addRouterParams := Some True\<rparr>) = None \<and>
   getUrlObject example_parse example_window example_urlQueryConfig
     (example_options\<lparr>urlPropsQueryConfig := None, addRouterParams := Some False\<rparr>)
     None example_props =
     Inr [(''id'', JString ''7''), (''page'', JString ''2'')] \<and>
   getUrlObject example_parse example_window example_urlQueryConfig
     (example_options\<lparr>urlPropsQueryConfig := None, addRouterParams := Some True\<rparr>)
     None example_props =
     Inr [(''id'', JString ''42''), (''page'', JString ''2'')]"
  by (simp add: getUrlObject_def getUrlObject_currentQuery_def getUrlObject_location_def
        addRouterParams_enabled_def addPropsWrapper_decodeQuery_def example_props_def
        Object_assign_def)

lemma getUrlObject_reads_location:
  assumes "getUrlObject_location cfg win p = getUrlObject_location cfg' win' p'"
    and "urlQueryConfig_addRouterParams cfg = urlQueryConfig_addRouterParams cfg'"
    and "params p = params p'"
  shows "getUrlObject parse win cfg opts dq p = getUrlObject parse win' cfg' opts dq p'"
  unfolding getUrlObject_def addRouterParams_enabled_def assms ..

lemma getUrlObject_location_only:
  "getUrlObject_location (cfg\<lparr>urlQueryConfig_history_location := None\<rparr>) l
     (p\<lparr>location := None\<rparr>) = l"
  by (simp add: getUrlObject_location_def)

text \<open>
  C5 (as amended). The query source is resolved with the priority: the \<^verbatim>\<open>location\<close>
  prop when it is present and carries a \<^verbatim>\<open>query\<close> property; else the location of the
  external history when that is present; else the location of the window. A \<^verbatim>\<open>location\<close>
  prop without a \<^verbatim>\<open>query\<close> counts as absent. The url object is the one computed from
  the selected location alone: the sources of lower priority are not read.
\<close>

theorem getUrlObject_location_priority:
  "(\<forall>l. location p = Some l \<and> query l \<noteq> None \<longrightarrow>
        getUrlObject_location cfg win p = l \<and>
        getUrlObject parse win cfg opts dq p =
          getUrlObject parse l (cfg\<lparr>urlQueryConfig_history_location := None\<rparr>) opts dq
            (p\<lparr>location := None\<rparr>)) \<and>
   (\<forall>h. (location p = None \<or> (\<exists>l. location p = Some l \<and> query l = None)) \<and>
        urlQueryConfig_history_location cfg = Some h \<longrightarrow>
        getUrlObject_location cfg win p = h \<and>
        getUrlObject parse win cfg opts dq p =
          getUrlObject parse h (cfg\<lparr>urlQueryConfig_history_location := None\<rparr>) opts dq
            (p\<lparr>location := None\<rparr>)) \<and>
   ((location p = None \<or> (\<exists>l. location p = Some l \<and> query l = None)) \<and>
        urlQueryConfig_history_location cfg = None \<longrightarrow>
        getUrlObject_location cfg win p = win \<and>
        getUrlObject parse win cfg opts dq p =
          getUrlObject parse win cfg opts dq (p\<lparr>location := None\<rparr>))"
proof (intro conjI allI impI)
  fix l
  assume "location p = Some l \<and> query l \<noteq> None"
  then show sel: "getUrlObject_location cfg win p = l"
    by (simp add: getUrlObject_location_def)
  show "getUrlObject parse win cfg opts dq p =
      getUrlObject parse l (cfg\<lparr>urlQueryConfig_history_location := None\<rparr>) opts dq
        (p\<lparr>location := None\<rparr>)"
    by (rule getUrlObject_reads_location) (simp_all add: sel getUrlObject_location_only)
next
  fix h
  assume "(location p = None \<or> (\<exists>l. location p = Some l \<and> query l = None)) \<and>
        urlQueryConfig_history_location cfg = Some h"
  then show sel: "getUrlObject_location cfg win p = h"
    by (auto simp: getUrlObject_location_def)
  show "getUrlObject parse win cfg opts dq p =
      getUrlObject parse h (cfg\<lparr>urlQueryConfig_history_location := None\<rparr>) opts dq
        (p\<lparr>location := None\<rparr>)"
    by (rule getUrlObject_reads_location) (simp_all add: sel getUrlObject_location_only)
next
  assume a: "(location p = None \<or> (\<exists>l. location p = Some l \<and> query l = None)) \<and>
        urlQueryConfig_history_location cfg = None"
  then show sel: "getUrlObject_location cfg win p = win"
    by (auto simp: getUrlObject_location_def)
  from a have "getUrlObject_location cfg win (p\<lparr>location := None\<rparr>) = win"
    by (simp add: getUrlObject_location_def)
  then show "getUrlObject parse win cfg opts dq p =
      getUrlObject parse win cfg opts dq (p\<lparr>location := None\<rparr>)"
    by (intro getUrlObject_reads_location) (simp_all add: sel)
qed

theorem getUrlObject_location_priority_witness:
  "getUrlObject_location
      (example_urlQueryConfig\<lparr>urlQueryConfig_history_location :=
         Some \<lparr>query = None, search = Some ''?h=1''\<rparr>\<rparr>) example_window example_props =
     \<lparr>query = Some [(''id'', JString ''7''), (''page'', JString ''2'')],
      search = Some ''?id=7&page=2''\<rparr> \<and>
   getUrlObject_location
      (example_urlQueryConfig\<lparr>urlQueryConfig_history_location :=
         Some \<lparr>query = None, search = Some ''?h=1''\<rparr>\<rparr>) example_window
      (example_props\<lparr>location := Some \<lparr>query = None, search = Some ''?id=7''\<rparr>\<rparr>) =
     \<lparr>query = None, search = Some ''?h=1''\<rparr> \<and>
   getUrlObject_location example_urlQueryConfig example_window
      (example_props\<lparr>location := None\<rparr>) = example_window"
proof -
  let ?h = "\<lparr>query = None, search = Some ''?h=1''\<rparr>"
  let ?cfg = "example_urlQueryConfig\<lparr>urlQueryConfig_history_location := Some ?h\<rparr>"
  let ?l = "\<lparr>query = Some [(''id'', JString ''7''), (''page'', JString ''2'')],
             search = Some ''?id=7&page=2''\<rparr>"
  let ?p2 = "example_props\<lparr>location := Some \<lparr>query = None, search = Some ''?id=7''\<rparr>\<rparr>"
  let ?p3 = "example_props\<lparr>location := None\<rparr>"
  have 1: "location example_props = Some ?l \<and> query ?l \<noteq> None"
    by (simp add: example_props_def)
  have 2: "(location ?p2 = None \<or> (\<exists>l. location ?p2 = Some l \<and> query l = None)) \<and>
           urlQueryConfig_history_location ?cfg = Some ?h"
    by simp
  have 3: "(location ?p3 = None \<or> (\<exists>l. location ?p3 = Some l \<and> query l = None)) \<and>
           urlQueryConfig_history_location example_urlQueryConfig = None"
    by (simp add: example_urlQueryConfig_def)
  from getUrlObject_location_priority[of example_props ?cfg example_window] 1
  have a: "getUrlObject_location ?cfg example_window example_props = ?l" by blast
  from getUrlObject_location_priority[of ?p2 ?cfg example_window] 2
  have b: "getUrlObject_location ?cfg example_window ?p2 = ?h"
    by blast
  from getUrlObject_location_priority[of ?p3 example_urlQueryConfig example_window] 3
  have c: "getUrlObject_location example_urlQueryConfig example_window ?p3 = example_window"
    by blast
  from a b c show ?thesis by simp
qed

text \<open>The claim as written fails: the \<^verbatim>\<open>location\<close> prop is present (it has a search
  string and no \<^verbatim>\<open>query\<close>), and the lower-priority location of the history is the one
  used.\<close>

theorem getUrlObject_location_counterexample:
  "location (example_props\<lparr>location := Some \<lparr>query = None, search = Some ''?id=7''\<rparr>\<rparr>) \<noteq> None \<and>
   getUrlObject_location
      (example_urlQueryConfig\<lparr>urlQueryConfig_history_location :=
         Some \<lparr>query = Some [(''id'', JString ''8'')], search = None\<rparr>\<rparr>)
      example_window
      (example_props\<lparr>location := Some \<lparr>query = None, search = Some ''?id=7''\<rparr>\<rparr>) =
     \<lparr>query = Some [(''id'', JString ''8'')], search = None\<rparr>"
  by (simp add: getUrlObject_location_def)




text \<open>
  C10. A \<^verbatim>\<open>location\<close> prop whose \<^verbatim>\<open>query\<close> is absent or falsy is ignored for the
  resolution of the source. The url object is then computed from the location of the
  external history, or from that of the window when the history has none: from its
  \<^verbatim>\<open>query\<close>, or else from its search string, the only string handed to the parser; then
  decoded and merged as usual. Nothing of the \<^verbatim>\<open>location\<close> prop enters the result: its
  search string is never parsed.
\<close>

theorem location_prop_without_query_ignored:
  assumes "location p = Some l" "query l = None"
  shows "getUrlObject parse win cfg opts dq p =
     (case (let src = (case urlQueryConfig_history_location cfg of Some h \<Rightarrow> h | None \<Rightarrow> win)
            in case query src of
                 Some q \<Rightarrow> Inr q
               | None \<Rightarrow>
                  (case parse (search src) of
                     Inl e \<Rightarrow> Inl e
                   | Inr None \<Rightarrow> Inr []
                   | Inr (Some q) \<Rightarrow> Inr q)) of
        Inl e \<Rightarrow> Inl e
      | Inr currentQuery \<Rightarrow>
         (case (case dq of None \<Rightarrow> Inr currentQuery | Some decode \<Rightarrow> decode currentQuery) of
            Inl e \<Rightarrow> Inl e
          | Inr result \<Rightarrow>
             Inr (if addRouterParams_enabled opts cfg
                  then Object_assign result (case params p of None \<Rightarrow> [] | Some ps \<Rightarrow> ps)
                  else result)))"
proof -
  from assms have sel: "getUrlObject_location cfg win p =
      (case urlQueryConfig_history_location cfg of Some h \<Rightarrow> h | None \<Rightarrow> win)"
    by (auto simp: getUrlObject_location_def split: option.splits)
  show ?thesis
    unfolding getUrlObject_def sel getUrlObject_currentQuery_def Let_def
    by (auto split: sum.splits option.splits)
qed

theorem location_prop_without_query_ignored_witness:
  "getUrlObject example_parse example_window
     (example_urlQueryConfig\<lparr>urlQueryConfig_history_location :=
        Some \<lparr>query = None, search = Some ''?h=1''\<rparr>\<rparr>)
     (example_options\<lparr>urlPropsQueryConfig := None\<rparr>) None
     (example_props\<lparr>location := Some \<lparr>query = None, search = Some ''?id=7''\<rparr>\<rparr>) =
     Inr [(''search'', JString ''?h=1'')] \<and>
   getUrlObject example_parse example_window
     (example_urlQueryConfig\<lparr>urlQueryConfig_history_location :=
        Some \<lparr>query = Some [(''h'', JString ''1'')], search = Some ''?h=1''\<rparr>\<rparr>)
     (example_options\<lparr>urlPropsQueryConfig := None\<rparr>) None
     (example_props\<lparr>location := Some \<lparr>query = None, search = Some ''?id=7''\<rparr>\<rparr>) =
     Inr [(''h'', JString ''1'')] \<and>
   getUrlObject example_parse example_window example_urlQueryConfig
     (example_options\<lparr>urlPropsQueryConfig := None\<rparr>) None
     (example_props\<lparr>location := Some \<lparr>query = None, search = Some ''?id=7''\<rparr>\<rparr>) =
     Inr [(''search'', JString ''?w=1'')]"
proof -
  let ?l = "\<lparr>query = None, search = Some ''?id=7''\<rparr>"
  let ?p = "example_props\<lparr>location := Some ?l\<rparr>"
  let ?opts = "example_options\<lparr>urlPropsQueryConfig := None\<rparr>"
  have 1: "location ?p = Some ?l" and 2: "query ?l = None"
    by simp_all
  have off: "\<not> addRouterParams_enabled ?opts cfg"
    if "\<not> urlQueryConfig_addRouterParams cfg" for cfg
    using that by (simp add: addRouterParams_enabled_def example_options_def)
  have a: "getUrlObject example_parse example_window
     (example_urlQueryConfig\<lparr>urlQueryConfig_history_location :=
        Some \<lparr>query = None, search = Some ''?h=1''\<rparr>\<rparr>) ?opts None ?p =
     Inr [(''search'', JString ''?h=1'')]"
    unfolding location_prop_without_query_ignored[OF 1 2]
    by (simp add: off example_urlQueryConfig_def example_parse_def)
  have b: "getUrlObject example_parse example_window
     (example_urlQueryConfig\<lparr>urlQueryConfig_history_location :=
        Some \<lparr>query = Some [(''h'', JString ''1'')], search = Some ''?h=1''\<rparr>\<rparr>) ?opts None ?p =
     Inr [(''h'', JString ''1'')]"
    unfolding location_prop_without_query_ignored[OF 1 2]
    by (simp add: off example_urlQueryConfig_def)
  have c: "getUrlObject example_parse example_window example_urlQueryConfig ?opts None ?p =
     Inr [(''search'', JString ''?w=1'')]"
    unfolding location_prop_without_query_ignored[OF 1 2]
    by (simp add: off example_urlQueryConfig_def example_parse_def example_window_def)
  from a b c show ?thesis by simp
qed

section \<open>The generated handlers\<close>

lemma reduce_handlers_distinct:
  "map name (map fst config) = map Inr names \<Longrightarrow> distinct names \<Longrightarrow>
   set names \<inter> fst ` set acc = {} \<Longrightarrow>
   reduce_handlers name this config acc n =
     (Inr (acc @ handlers_of n this config names), n + length config)"
proof (induction config arbitrary: acc n names)
  case Nil
  then show ?case by simp
next
  case (Cons a config)
  obtain propName fc where a: "a = (propName, fc)" by (cases a)
  from Cons.prems(1) a obtain nm nms where names: "names = nm # nms"
    and nm: "name propName = Inr nm" and rest: "map name (map fst config) = map Inr nms"
    by (cases names) auto
  from Cons.prems(2,3) names have new: "nm \<notin> fst ` set acc"
    and d: "distinct nms" and nin: "nm \<notin> set nms" and dis: "set nms \<inter> fst ` set acc = {}"
    by auto
  have "set nms \<inter> fst ` set (acc @ [(nm, generated_handler n this propName fc)]) = {}"
    using dis nin by auto
  from Cons.IH[OF rest d this, of "Suc n"] show ?case
    by (simp add: a names nm obj_set_new[OF new])
qed

lemma length_handlers_of:
  "length names = length config \<Longrightarrow> length (handlers_of n this config names) = length config"
  by (induction n this config names rule: handlers_of.induct) auto

lemma nth_handlers_of:
  "length names = length config \<Longrightarrow> i < length config \<Longrightarrow>
   handlers_of n this config names ! i =
     (names ! i, generated_handler (n + i) this (fst (config ! i)) (snd (config ! i)))"
proof (induction n this config names arbitrary: i rule: handlers_of.induct)
  case (1 n this propName fc config handlerName names)
  then show ?case by (cases i) auto
qed auto

lemma reduce_handlers_keys:
  "reduce_handlers name this config acc n = (Inr hs, n') \<Longrightarrow>
   fst ` set hs = fst ` set acc \<union> {h. \<exists>p \<in> fst ` set config. name p = Inr h}"
proof (induction config arbitrary: acc n)
  case Nil
  then show ?case by auto
next
  case (Cons a config)
  obtain propName fc where a: "a = (propName, fc)" by (cases a)
  from Cons.prems a obtain nm where nm: "name propName = Inr nm"
    and r: "reduce_handlers name this config
              (obj_set acc nm (generated_handler n this propName fc)) (Suc n) = (Inr hs, n')"
    by (auto split: sum.splits)
  from Cons.IH[OF r] show ?case
    by (auto simp: keys_obj_set a nm)
qed

lemma reduce_handlers_total:
  "\<forall>p \<in> fst ` set config. \<exists>h. name p = Inr h \<Longrightarrow>
   \<exists>hs. reduce_handlers name this config acc n = (Inr hs, n + length config)"
proof (induction config arbitrary: acc n)
  case Nil
  then show ?case by simp
next
  case (Cons a config)
  obtain propName fc where a: "a = (propName, fc)" by (cases a)
  from Cons.prems a obtain nm where nm: "name propName = Inr nm" by auto
  from Cons.prems have "\<forall>p \<in> fst ` set config. \<exists>h. name p = Inr h" by auto
  from Cons.IH[OF this, of "obj_set acc nm (generated_handler n this propName fc)" "Suc n"]
  show ?case by (auto simp: a nm)
qed

lemma reduce_handlers_members:
  "reduce_handlers name this config acc n = (Inr hs, n') \<Longrightarrow> (hn, h) \<in> set hs \<Longrightarrow>
   (hn, h) \<in> set acc \<or>
   (\<exists>propName fc r. (propName, fc) \<in> set config \<and> name propName = Inr hn \<and>
      h = generated_handler r this propName fc)"
proof (induction config arbitrary: acc n)
  case Nil
  then show ?case by auto
next
  case (Cons a config)
  obtain propName fc where a: "a = (propName, fc)" by (cases a)
  from Cons.prems a obtain nm where nm: "name propName = Inr nm"
    and r: "reduce_handlers name this config
              (obj_set acc nm (generated_handler n this propName fc)) (Suc n) = (Inr hs, n')"
    by (auto split: sum.splits)
  from Cons.IH[OF r Cons.prems(2)] set_obj_set[of acc nm] show ?case
    using a nm by fastforce
qed

lemma handlers_cached:
  "urlPropsQueryConfig opts = Some config \<Longrightarrow> addUrlChangeHandlers_enabled opts cfg \<Longrightarrow>
   cachedHandlers s cls = Some hs \<Longrightarrow>
   getUrlChangeHandlerProps_handlers tu opts cfg cls this s = (Inr (Some hs), s)"
  by (simp add: getUrlChangeHandlerProps_handlers_def)

lemma handlers_generated:
  "urlPropsQueryConfig opts = Some config \<Longrightarrow> addUrlChangeHandlers_enabled opts cfg \<Longrightarrow>
   cachedHandlers s cls = None \<Longrightarrow>
   reduce_handlers (name_in_effect tu cfg s) this config [] (next_ref s) = (Inr hs, n') \<Longrightarrow>
   getUrlChangeHandlerProps_handlers tu opts cfg cls this s =
     (Inr (Some hs),
      s\<lparr>changeHandlerName := Some (name_in_effect tu cfg s),
        cachedHandlers := (cachedHandlers s)(cls := Some hs), next_ref := n'\<rparr>)"
  by (auto simp: getUrlChangeHandlerProps_handlers_def name_in_effect_def Let_def
           split: option.splits)

lemma handlers_raised:
  "urlPropsQueryConfig opts = Some config \<Longrightarrow> addUrlChangeHandlers_enabled opts cfg \<Longrightarrow>
   cachedHandlers s cls = None \<Longrightarrow>
   reduce_handlers (name_in_effect tu cfg s) this config [] (next_ref s) = (Inl e, n') \<Longrightarrow>
   fst (getUrlChangeHandlerProps_handlers tu opts cfg cls this s) = Inl e"
  by (auto simp: getUrlChangeHandlerProps_handlers_def name_in_effect_def Let_def
           split: option.splits)


lemma handlers_Inr_cache:
  assumes "urlPropsQueryConfig opts = Some config" "addUrlChangeHandlers_enabled opts cfg"
    and "getUrlChangeHandlerProps_handlers tu opts cfg cls this s = (Inr r, s1)"
  shows "r \<noteq> None \<and> cachedHandlers s1 cls = r"
proof (cases "cachedHandlers s cls")
  case None
  with assms show ?thesis
    by (auto simp: getUrlChangeHandlerProps_handlers_def Let_def
             split: prod.splits sum.splits if_splits)
next
  case (Some hs)
  from handlers_cached[OF assms(1,2) Some, of tu this] assms(3)
  have "r = Some hs" "s1 = s" by simp_all
  with Some show ?thesis by simp
qed

lemma getUrlChangeHandlerProps_snd:
  "snd (getUrlChangeHandlerProps tu opts cfg cls this p s) =
   snd (getUrlChangeHandlerProps_handlers tu opts cfg cls this s)"
  by (simp add: getUrlChangeHandlerProps_def split: prod.splits sum.splits option.splits)

lemma getUrlChangeHandlerProps_cached:
  "urlPropsQueryConfig opts = Some config \<Longrightarrow> addUrlChangeHandlers_enabled opts cfg \<Longrightarrow>
   cachedHandlers s cls = Some hs \<Longrightarrow>
   getUrlChangeHandlerProps tu opts cfg cls this p s =
     ((case mapUrlChangeHandlersToProps opts of
         None \<Rightarrow> Inr (Some hs)
       | Some f \<Rightarrow> f p (Some hs)), s)"
  by (simp add: getUrlChangeHandlerProps_def handlers_cached split: option.splits)


lemma renders_fixed:
  "urlPropsQueryConfig opts = Some config \<Longrightarrow> cachedHandlers s cls = Some hs \<Longrightarrow>
   \<forall>c \<in> set calls. addUrlChangeHandlers_enabled opts (fst c) \<and> fst (snd c) = cls \<Longrightarrow>
   renders tu opts calls s = s"
proof (induction tu opts calls s rule: renders.induct)
  case (1 tu opts s)
  then show ?case by simp
next
  case (2 tu opts cfg k this propsWithUrl calls s)
  then show ?case
    by (simp add: getUrlChangeHandlerProps_snd handlers_cached)
qed

text \<open>The first render of the example: both handlers are generated for instance 1 of
  class 0, under the default names, and cached.\<close>

lemma toUpperCase_examples:
  "example_toUpperCase CHR ''f'' = ''F''" "example_toUpperCase CHR ''b'' = ''B''"
  "example_toUpperCase CHR ''F'' = ''F''"
  by code_simp+

lemma example_enabled: "addUrlChangeHandlers_enabled example_options example_urlQueryConfig"
  by (simp add: addUrlChangeHandlers_enabled_def example_options_def example_urlQueryConfig_def)

lemma example_reduce:
  "reduce_handlers (defaultChangeHandlerName example_toUpperCase) 1 example_config [] 0 =
     (Inr example_handlers, 2)"
  by code_simp

lemma example_name_in_effect:
  "name_in_effect example_toUpperCase example_urlQueryConfig (addUrlProps_closure example_options n) =
     defaultChangeHandlerName example_toUpperCase"
  by (simp add: name_in_effect_def addUrlProps_closure_def example_options_def
        example_urlQueryConfig_def)

lemma example_first_handlers:
  "getUrlChangeHandlerProps_handlers example_toUpperCase example_options example_urlQueryConfig
     0 1 (addUrlProps_closure example_options 0) = (Inr (Some example_handlers), example_closure)"
proof -
  let ?s = "addUrlProps_closure example_options 0"
  have c: "urlPropsQueryConfig example_options = Some example_config"
    by (simp add: example_options_def)
  have n: "cachedHandlers ?s 0 = None" "next_ref ?s = 0"
    by (simp_all add: addUrlProps_closure_def)
  have "reduce_handlers (name_in_effect example_toUpperCase example_urlQueryConfig ?s) 1
          example_config [] (next_ref ?s) = (Inr example_handlers, 2)"
    using example_reduce by (simp add: example_name_in_effect n)
  from handlers_generated[OF c example_enabled n(1) this]
  have h: "getUrlChangeHandlerProps_handlers example_toUpperCase example_options
        example_urlQueryConfig 0 1 ?s =
      (Inr (Some example_handlers),
       ?s\<lparr>changeHandlerName := Some (defaultChangeHandlerName example_toUpperCase),
          cachedHandlers := (cachedHandlers ?s)(0 := Some example_handlers), next_ref := 2\<rparr>)"
    by (simp only: example_name_in_effect)
  have s: "?s\<lparr>changeHandlerName := Some (defaultChangeHandlerName example_toUpperCase),
          cachedHandlers := (cachedHandlers ?s)(0 := Some example_handlers), next_ref := 2\<rparr> =
        example_closure"
    by (simp add: addUrlProps_closure_def example_closure_def)
  from h s show ?thesis by simp
qed

lemma example_first_render:
  "getUrlChangeHandlerProps example_toUpperCase example_options example_urlQueryConfig 0 1 p
     (addUrlProps_closure example_options 0) = (Inr (Some example_handlers), example_closure)"
proof -
  have m: "mapUrlChangeHandlersToProps example_options = None"
    by (simp add: example_options_def)
  from example_first_handlers m show ?thesis
    by (simp add: getUrlChangeHandlerProps_def)
qed

text \<open>The same first render with the mapping function given: the closure changes in
  the same way, and the result is what the mapping function returns.\<close>

lemma handlers_mapper_irrelevant:
  "getUrlChangeHandlerProps_handlers tu (opts\<lparr>mapUrlChangeHandlersToProps := m\<rparr>) cfg cls this s =
   getUrlChangeHandlerProps_handlers tu opts cfg cls this s"
  unfolding getUrlChangeHandlerProps_handlers_def addUrlChangeHandlers_enabled_def
  by (cases "urlPropsQueryConfig opts") simp_all

lemma addUrlProps_closure_mapper:
  "addUrlProps_closure (opts\<lparr>mapUrlChangeHandlersToProps := m\<rparr>) n = addUrlProps_closure opts n"
  by (simp add: addUrlProps_closure_def)

lemma example_first_render_mapped:
  "getUrlChangeHandlerProps example_toUpperCase
     (example_options\<lparr>mapUrlChangeHandlersToProps := Some example_mapper\<rparr>)
     example_urlQueryConfig 0 1 p
     (addUrlProps_closure
        (example_options\<lparr>mapUrlChangeHandlersToProps := Some example_mapper\<rparr>) 0) =
     (example_mapper p (Some example_handlers), example_closure)"
  unfolding getUrlChangeHandlerProps_def handlers_mapper_irrelevant addUrlProps_closure_mapper
    example_first_handlers
  by simp

section \<open>The cache of generated handlers\<close>





text \<open>
  C3 (as amended). For a wrapped component with a \<^verbatim>\<open>urlPropsQueryConfig\<close> and
  change-handler generation enabled, once a call of \<^verbatim>\<open>getUrlChangeHandlerProps\<close> has
  returned, the second and every later call by the same instance under the unchanged
  configuration finds the identical generated handlers, the same function objects, and
  leaves the closure as it is. When no \<^verbatim>\<open>mapUrlChangeHandlersToProps\<close> is given the call
  returns that handler object, the same as the first call returned; when one is given,
  the call returns what that function returns for the current props and those
  handlers.
\<close>

theorem generated_handlers_stable:
  assumes c: "urlPropsQueryConfig opts = Some config"
    and en: "addUrlChangeHandlers_enabled opts cfg"
    and first: "getUrlChangeHandlerProps tu opts cfg cls this p s = (Inr r, s1)"
    and same: "\<forall>c \<in> set calls. fst c = cfg \<and> fst (snd c) = cls \<and> fst (snd (snd c)) = this"
  shows "\<exists>hs. cachedHandlers s1 cls = Some hs \<and>
      Inr r = (case mapUrlChangeHandlersToProps opts of
                 None \<Rightarrow> Inr (Some hs)
               | Some f \<Rightarrow> f p (Some hs)) \<and>
      (\<forall>p'. getUrlChangeHandlerProps tu opts cfg cls this p' (renders tu opts calls s1) =
           ((case mapUrlChangeHandlersToProps opts of
               None \<Rightarrow> Inr (Some hs)
             | Some f \<Rightarrow> f p' (Some hs)), s1)) \<and>
      (mapUrlChangeHandlersToProps opts = None \<longrightarrow>
         (\<forall>p'. getUrlChangeHandlerProps tu opts cfg cls this p' (renders tu opts calls s1) =
            (Inr r, s1)))"
proof -
  from first obtain g where
    g: "getUrlChangeHandlerProps_handlers tu opts cfg cls this s = (Inr g, s1)"
    and r: "(case mapUrlChangeHandlersToProps opts of
               None \<Rightarrow> Inr g
             | Some f \<Rightarrow> f p g) = Inr r"
    by (auto simp: getUrlChangeHandlerProps_def split: prod.splits sum.splits option.splits)
  from handlers_Inr_cache[OF c en g] obtain hs
    where hs: "g = Some hs" "cachedHandlers s1 cls = Some hs"
    by auto
  from same en have "\<forall>c \<in> set calls. addUrlChangeHandlers_enabled opts (fst c) \<and> fst (snd c) = cls"
    by simp
  from renders_fixed[OF c hs(2) this] have fixed: "renders tu opts calls s1 = s1" .
  note later = getUrlChangeHandlerProps_cached[OF c en hs(2), of tu this]
  show ?thesis
  proof (intro exI[of _ hs] conjI allI impI)
    show "cachedHandlers s1 cls = Some hs" by (rule hs(2))
    show "Inr r = (case mapUrlChangeHandlersToProps opts of
                 None \<Rightarrow> Inr (Some hs)
               | Some f \<Rightarrow> f p (Some hs))"
      using r hs(1) by (cases "mapUrlChangeHandlersToProps opts") auto
    show "getUrlChangeHandlerProps tu opts cfg cls this p' (renders tu opts calls s1) =
           ((case mapUrlChangeHandlersToProps opts of
               None \<Rightarrow> Inr (Some hs)
             | Some f \<Rightarrow> f p' (Some hs)), s1)" for p'
      by (simp add: fixed later)
    show "getUrlChangeHandlerProps tu opts cfg cls this p' (renders tu opts calls s1) =
            (Inr r, s1)" if "mapUrlChangeHandlersToProps opts = None" for p'
      using that r hs(1) by (simp add: fixed later)
  qed
qed

theorem generated_handlers_stable_witness:
  "getUrlChangeHandlerProps example_toUpperCase example_options example_urlQueryConfig 0 1 []
     (addUrlProps_closure example_options 0) = (Inr (Some example_handlers), example_closure) \<and>
   getUrlChangeHandlerProps example_toUpperCase example_options example_urlQueryConfig 0 1
     [(''readOnly'', JBoolean True)]
     (renders example_toUpperCase example_options
        [(example_urlQueryConfig, 0, 1, []),
         (example_urlQueryConfig, 0, 1, [(''readOnly'', JBoolean True)])] example_closure) =
     (Inr (Some example_handlers), example_closure)"
proof -
  let ?calls = "[(example_urlQueryConfig, 0::nat, 1::nat, []::jsobject),
         (example_urlQueryConfig, 0, 1, [(''readOnly'', JBoolean True)])]"
  have c: "urlPropsQueryConfig example_options = Some example_config"
    by (simp add: example_options_def)
  have same: "\<forall>c \<in> set ?calls.
      fst c = example_urlQueryConfig \<and> fst (snd c) = 0 \<and> fst (snd (snd c)) = 1"
    by simp
  have m: "mapUrlChangeHandlersToProps example_options = None"
    by (simp add: example_options_def)
  from generated_handlers_stable[OF c example_enabled example_first_render[of "[]"] same] m
  have "getUrlChangeHandlerProps example_toUpperCase example_options example_urlQueryConfig 0 1
     [(''readOnly'', JBoolean True)]
     (renders example_toUpperCase example_options ?calls example_closure) =
     (Inr (Some example_handlers), example_closure)"
    by blast
  with example_first_render[of "[]"] show ?thesis by simp
qed

text \<open>The claim as written fails when a \<^verbatim>\<open>mapUrlChangeHandlersToProps\<close> is given, here
  \<^verbatim>\<open>(props, handlers) => props.readOnly === true ? { disabled: true } : handlers\<close>. The
  first call returns the generated handlers; the second call, under the same
  configuration and with the prop \<^verbatim>\<open>readOnly\<close> set, returns \<^verbatim>\<open>{ disabled: true }\<close>, not the
  handler object the first call returned.\<close>

theorem generated_handlers_stable_counterexample:
  "getUrlChangeHandlerProps example_toUpperCase
     (example_options\<lparr>mapUrlChangeHandlersToProps := Some example_mapper\<rparr>)
     example_urlQueryConfig 0 1 []
     (addUrlProps_closure
        (example_options\<lparr>mapUrlChangeHandlersToProps := Some example_mapper\<rparr>) 0) =
     (Inr (Some example_handlers), example_closure) \<and>
   getUrlChangeHandlerProps example_toUpperCase
     (example_options\<lparr>mapUrlChangeHandlersToProps := Some example_mapper\<rparr>)
     example_urlQueryConfig 0 1 [(''readOnly'', JBoolean True)] example_closure =
     (Inr (Some [(''disabled'', JBoolean True)]), example_closure) \<and>
   example_handlers \<noteq> [(''disabled'', JBoolean True)]"
proof -
  let ?opts = "example_options\<lparr>mapUrlChangeHandlersToProps := Some example_mapper\<rparr>"
  have c: "urlPropsQueryConfig ?opts = Some example_config"
    by (simp add: example_options_def)
  have en: "addUrlChangeHandlers_enabled ?opts example_urlQueryConfig"
    by (simp add: addUrlChangeHandlers_enabled_def example_options_def example_urlQueryConfig_def)
  have s: "cachedHandlers example_closure 0 = Some example_handlers"
    by (simp add: example_closure_def)
  have 1: "getUrlChangeHandlerProps example_toUpperCase ?opts example_urlQueryConfig 0 1 []
      (addUrlProps_closure ?opts 0) = (Inr (Some example_handlers), example_closure)"
    unfolding example_first_render_mapped by (simp add: example_mapper_def)
  have 2: "getUrlChangeHandlerProps example_toUpperCase ?opts example_urlQueryConfig 0 1
      [(''readOnly'', JBoolean True)] example_closure = (Inr (Some [(''disabled'', JBoolean True)]), example_closure)"
    using getUrlChangeHandlerProps_cached[OF c en s, of example_toUpperCase 1
        "[(''readOnly'', JBoolean True)]"]
    by (simp add: example_mapper_def)
  have 3: "example_handlers \<noteq> [(''disabled'', JBoolean True)]"
    by (simp add: example_handlers_def)
  from 1 2 3 show ?thesis by simp
qed

section \<open>One handler per configured field\<close>

text \<open>
  C4 (as amended). When a \<^verbatim>\<open>urlPropsQueryConfig\<close> is supplied, change-handler generation
  is enabled, the cache is empty, and the naming function in effect names the
  configured fields without raising and with pairwise distinct names, exactly one
  change-handler prop is generated per configured field, under the field's handler
  name; and invoking the handler of field \<open>f\<close> with a value \<open>v\<close> encodes \<open>v\<close> by the
  field's declared type and, unless the encoder raises, calls the single-field URL
  update with the field's \<^verbatim>\<open>updateType\<close>, its \<^verbatim>\<open>queryParam\<close> (the prop name \<open>f\<close> when none
  is configured), the encoded value and the \<^verbatim>\<open>location\<close> prop of the generating instance.
\<close>

theorem one_handler_per_field:
  assumes c: "urlPropsQueryConfig opts = Some config"
    and en: "addUrlChangeHandlers_enabled opts cfg"
    and cache: "cachedHandlers s cls = None"
    and names: "map (name_in_effect tu cfg s) (map fst config) = map Inr names"
    and d: "distinct names"
  shows "\<exists>hs s1. getUrlChangeHandlerProps_handlers tu opts cfg cls this s = (Inr (Some hs), s1) \<and>
      length hs = length config \<and>
      (\<forall>i < length config.
         hs ! i = (names ! i,
                   generated_handler (next_ref s + i) this (fst (config ! i)) (snd (config ! i))) \<and>
         (\<forall>encode upd props_of v (w :: 'w).
            generatedUrlChangeHandler encode upd props_of (snd (hs ! i)) v w =
              (case encode (type (snd (config ! i))) v of
                 Inl e \<Rightarrow> Inl e
               | Inr encodedValue \<Rightarrow>
                   upd (updateType (snd (config ! i)))
                     (case queryParam (snd (config ! i)) of
                        None \<Rightarrow> fst (config ! i) | Some q \<Rightarrow> q)
                     encodedValue (location (props_of this)) w)))"
proof -
  from names have len: "length names = length config"
    by (metis length_map)
  have red: "reduce_handlers (name_in_effect tu cfg s) this config [] (next_ref s) =
      (Inr (handlers_of (next_ref s) this config names), next_ref s + length config)"
    using reduce_handlers_distinct[OF names d, of "[]" this "next_ref s"] by simp
  show ?thesis
    using handlers_generated[OF c en cache red]
    by (auto simp: length_handlers_of[OF len] nth_handlers_of[OF len] generated_handler_def)
qed

theorem one_handler_per_field_witness:
  "map (name_in_effect example_toUpperCase example_urlQueryConfig
          (addUrlProps_closure example_options 0))
     (map fst example_config) = map Inr [''onChangeFoo'', ''onChangeBar''] \<and>
   (\<exists>hs s1. getUrlChangeHandlerProps_handlers example_toUpperCase example_options
              example_urlQueryConfig 0 1
              (addUrlProps_closure example_options 0) = (Inr (Some hs), s1) \<and>
      length hs = length example_config \<and>
      hs ! 1 = (''onChangeBar'',
                GeneratedUrlChangeHandler 1 1 (JString ''pushIn'') ''b'' (JString ''string'')) \<and>
      generatedUrlChangeHandler example_encode (updateUrlQuerySingle (\<lambda>u. u = JString ''pushIn''))
        (\<lambda>i. example_props) (snd (hs ! 1)) (JString ''x'')
        \<lparr>url_query = [(''b'', JString ''old'')], url_entries = []\<rparr> =
      updateUrlQuerySingle (\<lambda>u. u = JString ''pushIn'') (JString ''pushIn'') ''b'' (JString ''x'')
        (location example_props) \<lparr>url_query = [(''b'', JString ''old'')], url_entries = []\<rparr>)"
proof -
  let ?s = "addUrlProps_closure example_options 0"
  have c: "urlPropsQueryConfig example_options = Some example_config"
    by (simp add: example_options_def)
  have cache: "cachedHandlers ?s 0 = None" and nr: "next_ref ?s = 0"
    by (simp_all add: addUrlProps_closure_def)
  note e = example_name_in_effect[of 0]
  have names: "map (name_in_effect example_toUpperCase example_urlQueryConfig ?s)
        (map fst example_config) =
      map Inr [''onChangeFoo'', ''onChangeBar'']"
    by (simp add: e example_config_def toUpperCase_examples)
  have d: "distinct [''onChangeFoo'', ''onChangeBar'']"
    by simp
  have f: "example_config ! 1 =
      (''bar'', \<lparr>updateType = JString ''pushIn'', queryParam = Some ''b'',
                type = JString ''string''\<rparr>)"
    by (simp add: example_config_def)
  from one_handler_per_field[OF c example_enabled cache names d, of 1, where ?'w = url_state]
  obtain hs s1 where h: "getUrlChangeHandlerProps_handlers example_toUpperCase example_options
              example_urlQueryConfig 0 1 ?s = (Inr (Some hs), s1)"
              "length hs = length example_config"
    and i: "\<forall>i < length example_config.
         hs ! i = ([''onChangeFoo'', ''onChangeBar''] ! i,
                   generated_handler (next_ref ?s + i) 1 (fst (example_config ! i))
                     (snd (example_config ! i))) \<and>
         (\<forall>encode upd props_of v (w :: url_state).
            generatedUrlChangeHandler encode upd props_of (snd (hs ! i)) v w =
              (case encode (type (snd (example_config ! i))) v of
                 Inl e \<Rightarrow> Inl e
               | Inr encodedValue \<Rightarrow>
                   upd (updateType (snd (example_config ! i)))
                     (case queryParam (snd (example_config ! i)) of
                        None \<Rightarrow> fst (example_config ! i) | Some q \<Rightarrow> q)
                     encodedValue (location (props_of 1)) w))"
    by blast
  have lt: "1 < length example_config"
    by (simp add: example_config_def)
  note at1 = i[rule_format, OF lt]
  note i1 = at1[THEN conjunct1]
  note i2 = at1[THEN conjunct2, rule_format]
  have a: "hs ! 1 = (''onChangeBar'',
                GeneratedUrlChangeHandler 1 1 (JString ''pushIn'') ''b'' (JString ''string''))"
    using i1 unfolding f nr generated_handler_def by simp
  have b: "generatedUrlChangeHandler example_encode
        (updateUrlQuerySingle (\<lambda>u. u = JString ''pushIn''))
        (\<lambda>i. example_props) (snd (hs ! 1)) (JString ''x'')
        \<lparr>url_query = [(''b'', JString ''old'')], url_entries = []\<rparr> =
      updateUrlQuerySingle (\<lambda>u. u = JString ''pushIn'') (JString ''pushIn'') ''b'' (JString ''x'')
        (location example_props) \<lparr>url_query = [(''b'', JString ''old'')], url_entries = []\<rparr>"
    unfolding i2 f by (simp add: example_encode_def)
  from names h a b show ?thesis by blast
qed

text \<open>The claim as written fails: the fields \<^verbatim>\<open>foo\<close> and \<^verbatim>\<open>Foo\<close> are both named
  \<^verbatim>\<open>onChangeFoo\<close> by the default naming, so two configured fields yield one handler prop,
  and it holds the handler of \<^verbatim>\<open>Foo\<close> (query parameter \<^verbatim>\<open>F\<close>), not that of \<^verbatim>\<open>foo\<close>.\<close>

theorem one_handler_per_field_counterexample:
  "fst (getUrlChangeHandlerProps_handlers example_toUpperCase
          (example_options\<lparr>urlPropsQueryConfig := Some
             [(''foo'', \<lparr>updateType = JUndefined, queryParam = None, type = JString ''number''\<rparr>),
              (''Foo'', \<lparr>updateType = JUndefined, queryParam = Some ''F'',
                        type = JString ''string''\<rparr>)]\<rparr>)
          example_urlQueryConfig 0 1
          \<lparr>changeHandlerName = None, cachedHandlers = (\<lambda>cls. None), next_ref = 0\<rparr>) =
     Inr (Some [(''onChangeFoo'',
                 GeneratedUrlChangeHandler 1 1 JUndefined ''F'' (JString ''string''))])"
proof -
  let ?config = "[(''foo'', \<lparr>updateType = JUndefined, queryParam = None,
                            type = JString ''number''\<rparr>),
              (''Foo'', \<lparr>updateType = JUndefined, queryParam = Some ''F'',
                        type = JString ''string''\<rparr>)]"
  let ?opts = "example_options\<lparr>urlPropsQueryConfig := Some ?config\<rparr>"
  let ?s = "\<lparr>changeHandlerName = None, cachedHandlers = (\<lambda>cls. None), next_ref = 0\<rparr>"
  have c: "urlPropsQueryConfig ?opts = Some ?config"
    by simp
  have en: "addUrlChangeHandlers_enabled ?opts example_urlQueryConfig"
    by (simp add: addUrlChangeHandlers_enabled_def example_options_def example_urlQueryConfig_def)
  have cache: "cachedHandlers ?s 0 = None"
    by simp
  have red: "reduce_handlers (name_in_effect example_toUpperCase example_urlQueryConfig ?s) 1
      ?config [] (next_ref ?s) =
      (Inr [(''onChangeFoo'',
             GeneratedUrlChangeHandler 1 1 JUndefined ''F'' (JString ''string''))], 2)"
    by (simp add: name_in_effect_def example_urlQueryConfig_def toUpperCase_examples
          generated_handler_def)
  from handlers_generated[OF c en cache red] show ?thesis
    by simp
qed

section \<open>The default handler names\<close>

lemma defaultChangeHandlerName_nonempty:
  "p \<noteq> [] \<Longrightarrow> defaultChangeHandlerName tu p = Inr (''onChange'' @ tu (hd p) @ tl p)"
  by (cases p) simp_all

lemma default_keys:
  assumes "\<forall>p \<in> fst ` set config. p \<noteq> []"
  shows "{h. \<exists>p \<in> fst ` set config. defaultChangeHandlerName tu p = Inr h} =
         (\<lambda>p. ''onChange'' @ tu (hd p) @ tl p) ` fst ` set config"
  using assms by (auto simp: defaultChangeHandlerName_nonempty image_iff)

text \<open>One render, of any class, keeps the invariant: the shared naming function is unset
  or the default one, and every cached set has the default names.\<close>

lemma default_step:
  assumes c: "urlPropsQueryConfig opts = Some config"
    and nonempty: "\<forall>p \<in> fst ` set config. p \<noteq> []"
    and glob: "urlQueryConfig_changeHandlerName cfg = None"
    and nm: "changeHandlerName s = None \<or>
             changeHandlerName s = Some (defaultChangeHandlerName tu)"
    and ch: "\<forall>k hs. cachedHandlers s k = Some hs \<longrightarrow>
               fst ` set hs = (\<lambda>p. ''onChange'' @ tu (hd p) @ tl p) ` fst ` set config"
  shows "(changeHandlerName (snd (getUrlChangeHandlerProps_handlers tu opts cfg cls this s)) = None \<or>
          changeHandlerName (snd (getUrlChangeHandlerProps_handlers tu opts cfg cls this s)) =
            Some (defaultChangeHandlerName tu)) \<and>
         (\<forall>k hs. cachedHandlers (snd (getUrlChangeHandlerProps_handlers tu opts cfg cls this s)) k =
                   Some hs \<longrightarrow>
               fst ` set hs = (\<lambda>p. ''onChange'' @ tu (hd p) @ tl p) ` fst ` set config) \<and>
         (addUrlChangeHandlers_enabled opts cfg \<longrightarrow>
           (\<exists>hs. fst (getUrlChangeHandlerProps_handlers tu opts cfg cls this s) = Inr (Some hs) \<and>
              fst ` set hs = (\<lambda>p. ''onChange'' @ tu (hd p) @ tl p) ` fst ` set config))"
proof (cases "addUrlChangeHandlers_enabled opts cfg")
  case False
  with c nm ch show ?thesis
    by (simp add: getUrlChangeHandlerProps_handlers_def)
next
  case en: True
  show ?thesis
  proof (cases "cachedHandlers s cls")
    case (Some hs)
    with handlers_cached[OF c en Some, of tu this] nm ch en show ?thesis by simp
  next
    case None
    from nm glob have eff: "name_in_effect tu cfg s = defaultChangeHandlerName tu"
      by (auto simp: name_in_effect_def)
    from nonempty have "\<forall>p \<in> fst ` set config. \<exists>h. defaultChangeHandlerName tu p = Inr h"
      by (simp add: defaultChangeHandlerName_nonempty)
    from reduce_handlers_total[OF this, of this "[]" "next_ref s"]
    obtain hs where red: "reduce_handlers (defaultChangeHandlerName tu) this config []
        (next_ref s) = (Inr hs, next_ref s + length config)" by blast
    from reduce_handlers_keys[OF red] default_keys[OF nonempty]
    have keys: "fst ` set hs = (\<lambda>p. ''onChange'' @ tu (hd p) @ tl p) ` fst ` set config"
      by simp
    from red eff have "reduce_handlers (name_in_effect tu cfg s) this config [] (next_ref s) =
        (Inr hs, next_ref s + length config)" by simp
    from handlers_generated[OF c en None this] keys en eff ch show ?thesis
      by simp
  qed
qed

lemma default_renders:
  assumes c: "urlPropsQueryConfig opts = Some config"
    and nonempty: "\<forall>p \<in> fst ` set config. p \<noteq> []"
  shows "\<forall>c \<in> set calls. urlQueryConfig_changeHandlerName (fst c) = None \<Longrightarrow>
     changeHandlerName s = None \<or> changeHandlerName s = Some (defaultChangeHandlerName tu) \<Longrightarrow>
     \<forall>k hs. cachedHandlers s k = Some hs \<longrightarrow>
        fst ` set hs = (\<lambda>p. ''onChange'' @ tu (hd p) @ tl p) ` fst ` set config \<Longrightarrow>
     (changeHandlerName (renders tu opts calls s) = None \<or>
      changeHandlerName (renders tu opts calls s) = Some (defaultChangeHandlerName tu)) \<and>
     (\<forall>k hs. cachedHandlers (renders tu opts calls s) k = Some hs \<longrightarrow>
        fst ` set hs = (\<lambda>p. ''onChange'' @ tu (hd p) @ tl p) ` fst ` set config)"
proof (induction calls arbitrary: s)
  case Nil
  then show ?case by simp
next
  case (Cons a calls)
  obtain cfg cls this p where a: "a = (cfg, cls, this, p)" by (cases a)
  from Cons.prems(1) a have g: "urlQueryConfig_changeHandlerName cfg = None" by simp
  from Cons.prems(1) have rest: "\<forall>c \<in> set calls. urlQueryConfig_changeHandlerName (fst c) = None"
    by simp
  note st = default_step[OF c nonempty g Cons.prems(2,3), of cls this]
  from Cons.IH[OF rest st[THEN conjunct1] st[THEN conjunct2, THEN conjunct1]]
  show ?case by (simp add: a getUrlChangeHandlerProps_snd)
qed

text \<open>
  C7 (as amended). When every configured prop name is non-empty and no custom naming
  function is supplied, neither in the options nor, at any render so far of any class
  wrapped by the same call of \<^verbatim>\<open>addUrlProps\<close>, in the global \<^verbatim>\<open>urlQueryConfig\<close>, then at
  every render with generation enabled the generated handler props are named, for every
  configured prop name \<open>p\<close>, \<^verbatim>\<open>onChange\<close> followed by \<open>p\<close> with its first character
  upper-cased (as the runtime's \<^verbatim>\<open>toUpperCase\<close> does it), and no handler prop has another
  name.
\<close>

theorem default_handler_names:
  assumes c: "urlPropsQueryConfig opts = Some config"
    and nonempty: "\<forall>p \<in> fst ` set config. p \<noteq> []"
    and no_opt: "options_changeHandlerName opts = None"
    and no_glob: "\<forall>c \<in> set calls. urlQueryConfig_changeHandlerName (fst c) = None"
       "urlQueryConfig_changeHandlerName cfg = None"
    and en: "addUrlChangeHandlers_enabled opts cfg"
  shows "\<exists>hs. fst (getUrlChangeHandlerProps_handlers tu opts cfg cls this
                    (renders tu opts calls (addUrlProps_closure opts n))) = Inr (Some hs) \<and>
           fst ` set hs = (\<lambda>p. ''onChange'' @ tu (hd p) @ tl p) ` fst ` set config"
proof -
  have "changeHandlerName (addUrlProps_closure opts n) = None \<or>
        changeHandlerName (addUrlProps_closure opts n) = Some (defaultChangeHandlerName tu)"
    and "\<forall>k hs. cachedHandlers (addUrlProps_closure opts n) k = Some hs \<longrightarrow>
        fst ` set hs = (\<lambda>p. ''onChange'' @ tu (hd p) @ tl p) ` fst ` set config"
    by (simp_all add: addUrlProps_closure_def no_opt)
  from default_renders[OF c nonempty no_glob(1) this]
  have inv: "changeHandlerName (renders tu opts calls (addUrlProps_closure opts n)) = None \<or>
      changeHandlerName (renders tu opts calls (addUrlProps_closure opts n)) =
        Some (defaultChangeHandlerName tu)"
    "\<forall>k hs. cachedHandlers (renders tu opts calls (addUrlProps_closure opts n)) k = Some hs \<longrightarrow>
        fst ` set hs = (\<lambda>p. ''onChange'' @ tu (hd p) @ tl p) ` fst ` set config"
    by simp_all
  from default_step[OF c nonempty no_glob(2) inv, of cls this] en show ?thesis
    by simp
qed

theorem default_handler_names_witness:
  "defaultChangeHandlerName example_toUpperCase ''foo'' = Inr ''onChangeFoo'' \<and>
   (\<exists>hs. fst (getUrlChangeHandlerProps_handlers example_toUpperCase example_options
              example_urlQueryConfig 3 2
              (renders example_toUpperCase example_options
                 [(example_urlQueryConfig, 0, 1, []), (example_urlQueryConfig, 3, 4, [])]
                 (addUrlProps_closure example_options 0))) = Inr (Some hs) \<and>
      fst ` set hs = {''onChangeFoo'', ''onChangeBar''})"
proof -
  have c: "urlPropsQueryConfig example_options = Some example_config"
    by (simp add: example_options_def)
  have nonempty: "\<forall>p \<in> fst ` set example_config. p \<noteq> []"
    by (simp add: example_config_def)
  have no_opt: "options_changeHandlerName example_options = None"
    by (simp add: example_options_def)
  have no_glob: "\<forall>c \<in> set [(example_urlQueryConfig, 0::nat, 1::nat, []::jsobject),
        (example_urlQueryConfig, 3, 4, [])].
      urlQueryConfig_changeHandlerName (fst c) = None"
    "urlQueryConfig_changeHandlerName example_urlQueryConfig = None"
    by (simp_all add: example_urlQueryConfig_def)
  have names: "(\<lambda>p. ''onChange'' @ example_toUpperCase (hd p) @ tl p) ` fst ` set example_config =
      {''onChangeFoo'', ''onChangeBar''}"
    by (simp add: example_config_def toUpperCase_examples)
  have d: "defaultChangeHandlerName example_toUpperCase ''foo'' = Inr ''onChangeFoo''"
    by (simp add: toUpperCase_examples)
  from default_handler_names[OF c nonempty no_opt no_glob example_enabled,
      of example_toUpperCase 3 2 0] names d
  show ?thesis by simp
qed

text \<open>The claim as written fails on a configuration with the empty prop name: the
  default naming reads \<^verbatim>\<open>propName[0]\<close>, which is \<^verbatim>\<open>undefined\<close>, and the call of
  \<^verbatim>\<open>toUpperCase\<close> on it raises a TypeError; no handler prop is generated at all, not even
  for the field \<^verbatim>\<open>foo\<close>.\<close>

theorem default_handler_names_counterexample:
  "defaultChangeHandlerName example_toUpperCase [] = Inl TypeError \<and>
   fst (getUrlChangeHandlerProps_handlers example_toUpperCase
          (example_options\<lparr>urlPropsQueryConfig := Some
             [(''foo'', \<lparr>updateType = JUndefined, queryParam = None, type = JString ''number''\<rparr>),
              ([], \<lparr>updateType = JUndefined, queryParam = None, type = JString ''string''\<rparr>)]\<rparr>)
          example_urlQueryConfig 0 1
          \<lparr>changeHandlerName = None, cachedHandlers = (\<lambda>cls. None), next_ref = 0\<rparr>) =
     Inl TypeError"
proof -
  let ?config = "[(''foo'', \<lparr>updateType = JUndefined, queryParam = None,
                            type = JString ''number''\<rparr>),
              ([], \<lparr>updateType = JUndefined, queryParam = None, type = JString ''string''\<rparr>)]"
  let ?opts = "example_options\<lparr>urlPropsQueryConfig := Some ?config\<rparr>"
  let ?s = "\<lparr>changeHandlerName = None, cachedHandlers = (\<lambda>cls. None), next_ref = 0\<rparr>"
  have c: "urlPropsQueryConfig ?opts = Some ?config"
    by simp
  have en: "addUrlChangeHandlers_enabled ?opts example_urlQueryConfig"
    by (simp add: addUrlChangeHandlers_enabled_def example_options_def example_urlQueryConfig_def)
  have cache: "cachedHandlers ?s 0 = None"
    by simp
  have red: "reduce_handlers (name_in_effect example_toUpperCase example_urlQueryConfig ?s) 1
      ?config [] (next_ref ?s) = (Inl TypeError, 1)"
    by (simp add: name_in_effect_def example_urlQueryConfig_def toUpperCase_examples)
  from handlers_raised[OF c en cache red] show ?thesis
    by simp
qed

section \<open>Without a configuration\<close>




section \<open>The frame of a generated handler\<close>

text \<open>
  C9. Every handler of a generated set belongs to a configured field \<open>f\<close>. A call of it
  encodes the value by the type of \<open>f\<close> and, unless the encoder raises, makes one call
  of the single-field update, with the update type of \<open>f\<close>, the \<^verbatim>\<open>queryParam\<close> of \<open>f\<close> (the
  prop name when \<open>f\<close> configures none), the encoded value and the \<^verbatim>\<open>location\<close> prop of the
  bound instance. With the single-field update modelled from the specification, the
  call therefore changes only the URL query field of that name, by the update strategy
  of \<open>f\<close>: the query then holds the encoded value under that key and, under every other
  key, what it held before, and a history entry is pushed exactly when the update type
  of \<open>f\<close> is a pushing one. When the encoder raises, nothing changes.
\<close>

theorem generated_handler_frame:
  assumes red: "reduce_handlers name this config [] n = (Inr hs, n')"
    and mem: "(hn, h) \<in> set hs"
  shows "\<exists>propName fc. (propName, fc) \<in> set config \<and> name propName = Inr hn \<and>
     (\<forall>encode upd props_of v (w :: 'w).
        generatedUrlChangeHandler encode upd props_of h v w =
          (case encode (type fc) v of
             Inl e \<Rightarrow> Inl e
           | Inr encodedValue \<Rightarrow>
               upd (updateType fc) (case queryParam fc of None \<Rightarrow> propName | Some q \<Rightarrow> q)
                 encodedValue (location (props_of this)) w)) \<and>
     (\<forall>encode pushes props_of v w.
        case encode (type fc) v of
          Inl e \<Rightarrow>
            generatedUrlChangeHandler encode (updateUrlQuerySingle pushes) props_of h v w = Inl e
        | Inr encodedValue \<Rightarrow>
            (\<exists>w'. generatedUrlChangeHandler encode (updateUrlQuerySingle pushes) props_of h v w =
                     Inr w' \<and>
               map_of (url_query w') (case queryParam fc of None \<Rightarrow> propName | Some q \<Rightarrow> q) =
                 Some encodedValue \<and>
               (\<forall>k. k \<noteq> (case queryParam fc of None \<Rightarrow> propName | Some q \<Rightarrow> q) \<longrightarrow>
                  map_of (url_query w') k = map_of (url_query w) k) \<and>
               url_entries w' =
                 (if pushes (updateType fc) then url_query w # url_entries w
                  else url_entries w)))"
proof -
  from reduce_handlers_members[OF red mem] obtain propName fc r
    where f: "(propName, fc) \<in> set config" "name propName = Inr hn"
      and h: "h = generated_handler r this propName fc"
    by auto
  have call: "generatedUrlChangeHandler encode upd props_of h v w =
          (case encode (type fc) v of
             Inl e \<Rightarrow> Inl e
           | Inr encodedValue \<Rightarrow>
               upd (updateType fc) (case queryParam fc of None \<Rightarrow> propName | Some q \<Rightarrow> q)
                 encodedValue (location (props_of this)) w)"
    for encode upd props_of v and w :: 'a
    by (simp add: h generated_handler_def)
  have frame: "case encode (type fc) v of
          Inl e \<Rightarrow>
            generatedUrlChangeHandler encode (updateUrlQuerySingle pushes) props_of h v w = Inl e
        | Inr encodedValue \<Rightarrow>
            (\<exists>w'. generatedUrlChangeHandler encode (updateUrlQuerySingle pushes) props_of h v w =
                     Inr w' \<and>
               map_of (url_query w') (case queryParam fc of None \<Rightarrow> propName | Some q \<Rightarrow> q) =
                 Some encodedValue \<and>
               (\<forall>k. k \<noteq> (case queryParam fc of None \<Rightarrow> propName | Some q \<Rightarrow> q) \<longrightarrow>
                  map_of (url_query w') k = map_of (url_query w) k) \<and>
               url_entries w' =
                 (if pushes (updateType fc) then url_query w # url_entries w
                  else url_entries w))"
    for encode pushes props_of v w
    by (simp add: call updateUrlQuerySingle_def map_of_obj_set split: sum.splits)
  from f call frame show ?thesis by blast
qed

theorem generated_handler_frame_witness:
  "reduce_handlers (defaultChangeHandlerName example_toUpperCase) 1 example_config [] 0 =
     (Inr example_handlers, 2) \<and>
   (''onChangeBar'', GeneratedUrlChangeHandler 1 1 (JString ''pushIn'') ''b'' (JString ''string''))
     \<in> set example_handlers \<and>
   generatedUrlChangeHandler example_encode
     (updateUrlQuerySingle (\<lambda>u. u = JString ''pushIn'')) (\<lambda>i. example_props)
     (GeneratedUrlChangeHandler 1 1 (JString ''pushIn'') ''b'' (JString ''string''))
     (JString ''x'') \<lparr>url_query = [(''a'', JString ''1''), (''b'', JString ''old'')],
                      url_entries = []\<rparr> =
     Inr \<lparr>url_query = [(''a'', JString ''1''), (''b'', JString ''x'')],
          url_entries = [[(''a'', JString ''1''), (''b'', JString ''old'')]]\<rparr> \<and>
   generatedUrlChangeHandler example_encode
     (updateUrlQuerySingle (\<lambda>u. u = JString ''pushIn'')) (\<lambda>i. example_props)
     (GeneratedUrlChangeHandler 0 1 JUndefined ''foo'' (JString ''number''))
     (JString ''5'') \<lparr>url_query = [(''a'', JString ''1''), (''b'', JString ''old'')],
                      url_entries = []\<rparr> =
     Inr \<lparr>url_query = [(''a'', JString ''1''), (''b'', JString ''old''), (''foo'', JString ''5'')],
          url_entries = []\<rparr>"
proof -
  let ?w = "\<lparr>url_query = [(''a'', JString ''1''), (''b'', JString ''old'')], url_entries = []\<rparr>"
  let ?bar = "GeneratedUrlChangeHandler 1 1 (JString ''pushIn'') ''b'' (JString ''string'')"
  let ?foo = "GeneratedUrlChangeHandler 0 1 JUndefined ''foo'' (JString ''number'')"
  let ?upd = "updateUrlQuerySingle (\<lambda>u. u = JString ''pushIn'')"
  have mem: "(''onChangeBar'', ?bar) \<in> set example_handlers"
    and mem': "(''onChangeFoo'', ?foo) \<in> set example_handlers"
    by (simp_all add: example_handlers_def)
  have names: "\<And>p fc. (p, fc) \<in> set example_config \<Longrightarrow>
      defaultChangeHandlerName example_toUpperCase p = Inr ''onChangeBar'' \<Longrightarrow>
      p = ''bar'' \<and> fc = \<lparr>updateType = JString ''pushIn'', queryParam = Some ''b'',
                type = JString ''string''\<rparr>"
    "\<And>p fc. (p, fc) \<in> set example_config \<Longrightarrow>
      defaultChangeHandlerName example_toUpperCase p = Inr ''onChangeFoo'' \<Longrightarrow>
      p = ''foo'' \<and> fc = \<lparr>updateType = JUndefined, queryParam = None,
                type = JString ''number''\<rparr>"
    by (auto simp: example_config_def toUpperCase_examples)
  from generated_handler_frame[OF example_reduce mem, where ?'w = url_state] names(1)
  have "generatedUrlChangeHandler example_encode ?upd (\<lambda>i. example_props) ?bar (JString ''x'') ?w =
      (case example_encode (JString ''string'') (JString ''x'') of
         Inl e \<Rightarrow> Inl e
       | Inr encodedValue \<Rightarrow>
           ?upd (JString ''pushIn'') ''b'' encodedValue (location ((\<lambda>i. example_props) 1)) ?w)"
    by fastforce
  then have bar: "generatedUrlChangeHandler example_encode ?upd (\<lambda>i. example_props) ?bar
      (JString ''x'') ?w =
     Inr \<lparr>url_query = [(''a'', JString ''1''), (''b'', JString ''x'')],
          url_entries = [[(''a'', JString ''1''), (''b'', JString ''old'')]]\<rparr>"
    by (simp add: example_encode_def updateUrlQuerySingle_def)
  from generated_handler_frame[OF example_reduce mem', where ?'w = url_state] names(2)
  have "generatedUrlChangeHandler example_encode ?upd (\<lambda>i. example_props) ?foo (JString ''5'') ?w =
      (case example_encode (JString ''number'') (JString ''5'') of
         Inl e \<Rightarrow> Inl e
       | Inr encodedValue \<Rightarrow>
           ?upd JUndefined ''foo'' encodedValue (location ((\<lambda>i. example_props) 1)) ?w)"
    by fastforce
  then have foo: "generatedUrlChangeHandler example_encode ?upd (\<lambda>i. example_props) ?foo
      (JString ''5'') ?w =
     Inr \<lparr>url_query = [(''a'', JString ''1''), (''b'', JString ''old''), (''foo'', JString ''5'')],
          url_entries = []\<rparr>"
    by (simp add: example_encode_def updateUrlQuerySingle_def)
  from example_reduce mem bar foo show ?thesis by simp
qed

end
